theory Spec2Isabelle
  imports Complex_Main
begin

section \<open>Python values used by Grok_UI_Util.py\<close>

text \<open>
  Strings are \<open>string\<close>; one \<open>char\<close> stands for one code point of a Python \<open>str\<close>
  (the model covers the code points below 256), so \<open>length\<close> is Python's \<open>len\<close>.
  A reading of \<open>time()\<close> is a \<open>real\<close> number of seconds, and so is a float.
\<close>

text \<open>
  What \<open>response.json()\<close> returns: a dict is a list of key-value pairs, read with
  \<open>map_of\<close>.
\<close>

datatype json =
    JNull
  | JBool bool
  | JInt int
  | JFloat real
  | JStr string
  | JArr "json list"
  | JObj "(string \<times> json) list"

text \<open>
  The \<open>response_text\<close> of an APIError: \<open>response.text\<close>, or \<open>str(response_data)\<close>, kept
  as the payload it renders.
\<close>

datatype resp_text = Text string | Str_of json

datatype exn =
    APIError string "int option" "resp_text option"
  | RequestException
  | JSONDecodeError
  | AttributeError
  | KeyError
  | TypeError
  | IndexError

text \<open>\<open>str(n)\<close> for an integer and \<open>int(x)\<close> for a float (truncation towards zero).\<close>

fun str_nat :: "nat \<Rightarrow> string" where
  "str_nat n =
     (if n < 10 then [char_of (48 + n)]
      else str_nat (n div 10) @ [char_of (48 + n mod 10)])"

declare str_nat.simps [simp del]

definition str_int :: "int \<Rightarrow> string" where
  "str_int i = (if i < 0 then CHR ''-'' # str_nat (nat (- i)) else str_nat (nat i))"

definition py_int :: "real \<Rightarrow> int" where
  "py_int x = (if 0 \<le> x then \<lfloor>x\<rfloor> else \<lceil>x\<rceil>)"

text \<open>Truth value of an object in \<open>if not x\<close>.\<close>

fun truthy :: "json \<Rightarrow> bool" where
  "truthy JNull = False"
| "truthy (JBool b) = b"
| "truthy (JInt i) = (i \<noteq> 0)"
| "truthy (JFloat r) = (r \<noteq> 0)"
| "truthy (JStr s) = (s \<noteq> [])"
| "truthy (JArr xs) = (xs \<noteq> [])"
| "truthy (JObj kvs) = (kvs \<noteq> [])"

text \<open>
  \<open>x[0]\<close>: the first element of a list, the first character of a string, KeyError on a
  dict (its keys are strings), TypeError on a number, a bool or None.
\<close>

fun getitem0 :: "json \<Rightarrow> exn + json" where
  "getitem0 (JArr []) = Inl IndexError"
| "getitem0 (JArr (x # xs)) = Inr x"
| "getitem0 (JStr []) = Inl IndexError"
| "getitem0 (JStr (c # cs)) = Inr (JStr [c])"
| "getitem0 (JObj kvs) = Inl KeyError"
| "getitem0 JNull = Inl TypeError"
| "getitem0 (JBool b) = Inl TypeError"
| "getitem0 (JInt i) = Inl TypeError"
| "getitem0 (JFloat r) = Inl TypeError"

text \<open>\<open>d.get(key, default)\<close> on a dict.\<close>

definition dict_get :: "(string \<times> json) list \<Rightarrow> string \<Rightarrow> json \<Rightarrow> json" where
  "dict_get d key dflt = (case map_of d key of None \<Rightarrow> dflt | Some v \<Rightarrow> v)"

text \<open>\<open>len(x)\<close>: defined on strings, lists and dicts, TypeError otherwise.\<close>

fun py_len :: "json \<Rightarrow> exn + nat" where
  "py_len (JStr s) = Inr (length s)"
| "py_len (JArr xs) = Inr (length xs)"
| "py_len (JObj kvs) = Inr (length kvs)"
| "py_len JNull = Inl TypeError"
| "py_len (JBool b) = Inl TypeError"
| "py_len (JInt i) = Inl TypeError"
| "py_len (JFloat r) = Inl TypeError"

text \<open>
  \<open>str.isspace\<close> on the code points below 256 (tab to carriage return, the four
  separators 28 to 31, space, NEL and the no-break space), and \<open>str.strip()\<close>.
\<close>

definition isspace :: "char \<Rightarrow> bool" where
  "isspace c \<longleftrightarrow>
     (let n = (of_char c :: nat)
      in (9 \<le> n \<and> n \<le> 13) \<or> (28 \<le> n \<and> n \<le> 32) \<or> n = 133 \<or> n = 160)"

definition strip :: "string \<Rightarrow> string" where
  "strip s = rev (dropWhile isspace (rev (dropWhile isspace s)))"

text \<open>
  A slice \<open>xs[start:]\<close>: a negative start counts from the end and stops at the front, a
  start beyond the end gives the empty list.
\<close>

definition slice_from :: "int \<Rightarrow> 'a list \<Rightarrow> 'a list" where
  "slice_from start xs =
     (if start < 0 then drop (nat (int (length xs) + start)) xs else drop (nat start) xs)"

text \<open>
  \<open>handle_error\<close>: both branches log and return the same text. The error id is
  \<open>datetime.now()\<close> formatted, taken as given.
\<close>

definition handle_error :: "exn \<Rightarrow> string \<Rightarrow> string \<Rightarrow> string" where
  "handle_error error user_friendly_message error_id =
     (case error of
        APIError m sc rt \<Rightarrow> user_friendly_message @ '' (Error ID: '' @ error_id @ '')''
      | _ \<Rightarrow> user_friendly_message @ '' (Error ID: '' @ error_id @ '')'')"

section \<open>RateLimiter\<close>

definition MAX_REQUESTS_PER_MINUTE :: nat where
  "MAX_REQUESTS_PER_MINUTE = 10"

definition MAX_REQUESTS_PER_HOUR :: nat where
  "MAX_REQUESTS_PER_HOUR = 100"

text \<open>
  \<open>collections.deque(maxlen=n)\<close>: the entries oldest first, and the bound. Appending
  to a full deque discards entries from the left.
\<close>

record deque =
  items :: "real list"
  maxlen :: nat

definition deque_new :: "nat \<Rightarrow> deque" where
  "deque_new n = \<lparr>items = [], maxlen = n\<rparr>"

definition deque_append :: "deque \<Rightarrow> real \<Rightarrow> deque" where
  "deque_append q x =
     (let ys = items q @ [x] in q\<lparr>items := drop (length ys - maxlen q) ys\<rparr>)"

record rate_limiter =
  minute_limit :: nat
  hour_limit :: nat
  minute_requests :: deque
  hour_requests :: deque

text \<open>
  \<open>__init__\<close> with \<open>_initialize_queues\<close>: a queue is created only when the session state
  does not hold one yet (\<open>None\<close>); otherwise the session's queue is kept. The limits
  are natural numbers: \<open>deque(maxlen=n)\<close> raises ValueError on a negative \<open>n\<close>.
\<close>

definition RateLimiter_init :: "nat \<Rightarrow> nat \<Rightarrow> deque option \<Rightarrow> deque option \<Rightarrow> rate_limiter" where
  "RateLimiter_init ml hl sm sh =
     \<lparr>minute_limit = ml, hour_limit = hl,
      minute_requests = (case sm of None \<Rightarrow> deque_new ml | Some q \<Rightarrow> q),
      hour_requests = (case sh of None \<Rightarrow> deque_new hl | Some q \<Rightarrow> q)\<rparr>"

text \<open>The limiter of a fresh session, as the script builds it: \<open>RateLimiter()\<close>.\<close>

definition fresh_limiter :: rate_limiter where
  "fresh_limiter =
     RateLimiter_init MAX_REQUESTS_PER_MINUTE MAX_REQUESTS_PER_HOUR None None"

text \<open>
  \<open>_clean_old_requests\<close>: the loop \<open>while queue and queue[0] < current_time - window_seconds:
  queue.popleft()\<close>, with \<open>bound = current_time - window_seconds\<close>.
\<close>

fun popleft_while :: "real list \<Rightarrow> real \<Rightarrow> real list" where
  "popleft_while [] bound = []"
| "popleft_while (x # xs) bound = (if x < bound then popleft_while xs bound else x # xs)"

definition clean_old_requests :: "deque \<Rightarrow> real \<Rightarrow> real \<Rightarrow> deque" where
  "clean_old_requests queue window_seconds current_time =
     queue\<lparr>items := popleft_while (items queue) (current_time - window_seconds)\<rparr>"

definition format_wait_time :: "real \<Rightarrow> string" where
  "format_wait_time seconds =
     (if seconds < 60 then str_int (py_int seconds) @ '' seconds''
      else let minutes = py_int (seconds / 60)
           in str_int minutes @ '' minute'' @ (if minutes > 1 then ''s'' else ''''))"

text \<open>
  The decision of \<open>can_make_request\<close>, before the message is formatted. The three clock
  readings are the three calls of \<open>time()\<close>: \<open>current_time\<close> in \<open>can_make_request\<close>
  itself, then one in each \<open>_clean_old_requests\<close>. \<open>queue[0]\<close> on an empty deque raises
  IndexError; the purge before it stays done.
\<close>

datatype verdict = Admit | RejectMinute real | RejectHour real

definition queue_head :: "deque \<Rightarrow> exn + real" where
  "queue_head q = (case items q of [] \<Rightarrow> Inl IndexError | x # _ \<Rightarrow> Inr x)"

definition check_limits ::
  "rate_limiter \<Rightarrow> real \<Rightarrow> real \<Rightarrow> real \<Rightarrow> (exn + verdict) \<times> rate_limiter" where
  "check_limits self current_time t_minute t_hour =
     (let mq = clean_old_requests (minute_requests self) 60 t_minute;
          hq = clean_old_requests (hour_requests self) 3600 t_hour;
          self1 = self\<lparr>minute_requests := mq, hour_requests := hq\<rparr>
      in if length (items mq) \<ge> minute_limit self then
           (case queue_head mq of
              Inl e \<Rightarrow> (Inl e, self1)
            | Inr q0 \<Rightarrow> (Inr (RejectMinute ((q0 + 60) - current_time)), self1))
         else if length (items hq) \<ge> hour_limit self then
           (case queue_head hq of
              Inl e \<Rightarrow> (Inl e, self1)
            | Inr q0 \<Rightarrow> (Inr (RejectHour ((q0 + 3600) - current_time)), self1))
         else
           (Inr Admit,
            self1\<lparr>minute_requests := deque_append mq current_time,
                  hour_requests := deque_append hq current_time\<rparr>))"

fun verdict_result :: "verdict \<Rightarrow> bool \<times> string" where
  "verdict_result Admit = (True, '''')"
| "verdict_result (RejectMinute wait_time) =
     (False, ''Rate limit exceeded. Please wait '' @ format_wait_time wait_time @ ''.'')"
| "verdict_result (RejectHour wait_time) =
     (False, ''Hourly limit exceeded. Please wait '' @ format_wait_time wait_time @ ''.'')"

definition can_make_request ::
  "rate_limiter \<Rightarrow> real \<Rightarrow> real \<Rightarrow> real \<Rightarrow> (exn + bool \<times> string) \<times> rate_limiter" where
  "can_make_request self current_time t_minute t_hour =
     (case check_limits self current_time t_minute t_hour of
        (Inl e, self') \<Rightarrow> (Inl e, self')
      | (Inr v, self') \<Rightarrow> (Inr (verdict_result v), self'))"

text \<open>\<open>get_usage_stats\<close>: purge both queues, then report sizes and limits.\<close>

record usage_stats =
  requests_this_minute :: nat
  requests_this_hour :: nat
  stats_minute_limit :: nat
  stats_hour_limit :: nat

definition get_usage_stats :: "rate_limiter \<Rightarrow> real \<Rightarrow> real \<Rightarrow> usage_stats \<times> rate_limiter" where
  "get_usage_stats self t_minute t_hour =
     (let mq = clean_old_requests (minute_requests self) 60 t_minute;
          hq = clean_old_requests (hour_requests self) 3600 t_hour
      in (\<lparr>requests_this_minute = length (items mq),
           requests_this_hour = length (items hq),
           stats_minute_limit = minute_limit self,
           stats_hour_limit = hour_limit self\<rparr>,
          self\<lparr>minute_requests := mq, hour_requests := hq\<rparr>))"

text \<open>
  A sequence of calls on one limiter, each with the clock readings it takes, and the
  limiter after them.
\<close>

datatype limiter_call = CanMakeRequest real real real | GetUsageStats real real

fun limiter_step :: "rate_limiter \<Rightarrow> limiter_call \<Rightarrow> rate_limiter" where
  "limiter_step self (CanMakeRequest t0 t1 t2) = snd (check_limits self t0 t1 t2)"
| "limiter_step self (GetUsageStats t1 t2) = snd (get_usage_stats self t1 t2)"

fun run_calls :: "rate_limiter \<Rightarrow> limiter_call list \<Rightarrow> rate_limiter" where
  "run_calls self [] = self"
| "run_calls self (c # cs) = run_calls (limiter_step self c) cs"

text \<open>
  The state a limiter is in between calls: positive limits, and each deque bounded by its
  limit and within its bound.
\<close>

definition limiter_ok :: "rate_limiter \<Rightarrow> bool" where
  "limiter_ok self \<longleftrightarrow>
     0 < minute_limit self \<and> 0 < hour_limit self \<and>
     maxlen (minute_requests self) = minute_limit self \<and>
     maxlen (hour_requests self) = hour_limit self \<and>
     length (items (minute_requests self)) \<le> minute_limit self \<and>
     length (items (hour_requests self)) \<le> hour_limit self"

section \<open>ConversationManager\<close>

text \<open>
  An entry of the history: the dict with the keys \<open>timestamp\<close>, \<open>user_input\<close> and
  \<open>response\<close>. The response is what \<open>query_grok\<close> returned.
\<close>

record entry =
  timestamp :: string
  user_input :: string
  response :: json

record conversation_manager =
  max_history :: int
  conversation_history :: "entry list"

text \<open>
  \<open>__init__\<close> with \<open>_initialize_history\<close>: the history of the session is kept when there
  is one.
\<close>

definition ConversationManager_init :: "int \<Rightarrow> entry list option \<Rightarrow> conversation_manager" where
  "ConversationManager_init mh sh =
     \<lparr>max_history = mh,
      conversation_history = (case sh of None \<Rightarrow> [] | Some h \<Rightarrow> h)\<rparr>"

text \<open>The manager of a fresh session, as the script builds it: \<open>ConversationManager()\<close>.\<close>

definition fresh_manager :: conversation_manager where
  "fresh_manager = ConversationManager_init 50 None"

text \<open>
  \<open>add_conversation\<close>: append, then \<open>history[-self.max_history:]\<close> when the history is
  longer than \<open>max_history\<close>. The timestamp is \<open>datetime.now()\<close> formatted, taken as given.
\<close>

definition add_conversation ::
  "conversation_manager \<Rightarrow> string \<Rightarrow> json \<Rightarrow> string \<Rightarrow> conversation_manager" where
  "add_conversation self inp resp now_str =
     (let e = \<lparr>timestamp = now_str, user_input = inp, response = resp\<rparr>;
          history = conversation_history self @ [e]
      in if int (length history) > max_history self
         then self\<lparr>conversation_history := slice_from (- max_history self) history\<rparr>
         else self\<lparr>conversation_history := history\<rparr>)"

definition clear_history :: "conversation_manager \<Rightarrow> conversation_manager" where
  "clear_history self = self\<lparr>conversation_history := []\<rparr>"

text \<open>
  \<open>get_history\<close>: \<open>list(reversed(...))\<close>, a new list; the manager is returned as the call
  leaves it.
\<close>

definition get_history :: "conversation_manager \<Rightarrow> entry list \<times> conversation_manager" where
  "get_history self = (rev (conversation_history self), self)"

text \<open>A sequence of \<open>add_conversation\<close> calls, each with its input, response and timestamp.\<close>

fun add_all :: "conversation_manager \<Rightarrow> (string \<times> json \<times> string) list \<Rightarrow> conversation_manager" where
  "add_all self [] = self"
| "add_all self ((inp, resp, now_str) # cs) = add_all (add_conversation self inp resp now_str) cs"

text \<open>The entry that a call of \<open>add_conversation\<close> builds.\<close>

fun entry_of :: "string \<times> json \<times> string \<Rightarrow> entry" where
  "entry_of (inp, resp, now_str) = \<lparr>timestamp = now_str, user_input = inp, response = resp\<rparr>"

section \<open>Input validation\<close>

definition MAX_INPUT_LENGTH :: nat where
  "MAX_INPUT_LENGTH = 4000"

definition MIN_INPUT_LENGTH :: nat where
  "MIN_INPUT_LENGTH = 1"

definition validate_input :: "string \<Rightarrow> bool \<times> string" where
  "validate_input inp =
     (if inp = [] \<or> strip inp = [] then (False, ''Input cannot be empty'')
      else if length inp < MIN_INPUT_LENGTH then
        (False, ''Input must be at least '' @ str_nat MIN_INPUT_LENGTH @ '' character long'')
      else if length inp > MAX_INPUT_LENGTH then
        (False, ''Input exceeds maximum length of '' @ str_nat MAX_INPUT_LENGTH @ '' characters'')
      else (True, ''''))"

section \<open>Response validation\<close>

definition validate_api_response :: "json \<Rightarrow> exn + json" where
  "validate_api_response response_data =
     (case response_data of
        JObj d \<Rightarrow>
          (let choices = dict_get d ''choices'' (JArr [])
           in if \<not> truthy choices then
                Inl (APIError ''Invalid API response: missing or empty 'choices' array''
                       None (Some (Str_of response_data)))
              else
                (case getitem0 choices of
                   Inl e \<Rightarrow> Inl e
                 | Inr first_choice \<Rightarrow>
                     (case first_choice of
                        JObj fc \<Rightarrow>
                          (case dict_get fc ''message'' (JObj []) of
                             JObj message \<Rightarrow>
                               (case map_of message ''content'' of
                                  None \<Rightarrow>
                                    Inl (APIError ''Invalid API response: missing 'content' in message''
                                           None (Some (Str_of response_data)))
                                | Some JNull \<Rightarrow>
                                    Inl (APIError ''Invalid API response: missing 'content' in message''
                                           None (Some (Str_of response_data)))
                                | Some content \<Rightarrow> Inr content)
                           | _ \<Rightarrow>
                               Inl (APIError ''Invalid API response: message is not an object''
                                      None (Some (Str_of response_data))))
                      | _ \<Rightarrow>
                          Inl (APIError ''Invalid API response: first choice is not an object''
                                 None (Some (Str_of response_data))))))
      | _ \<Rightarrow> Inl AttributeError)"

section \<open>The API call\<close>

text \<open>
  The request that \<open>requests.post\<close> receives, and what comes back: a RequestException, or
  a response with its status code, its text, and the result of \<open>response.json()\<close>
  (\<open>None\<close> when the text does not parse, where \<open>json()\<close> raises JSONDecodeError).
\<close>

record http_request =
  url :: string
  headers :: "(string \<times> string) list"
  data :: json

record http_response =
  status_code :: int
  raw_text :: string
  json_body :: "json option"

datatype http_outcome = Raised_RequestException | Responded http_response

definition build_request :: "string \<Rightarrow> string \<Rightarrow> string \<Rightarrow> real \<Rightarrow> http_request" where
  "build_request api_key api_url inp temperature =
     \<lparr>url = api_url,
      headers = [(''Authorization'', ''Bearer '' @ api_key),
                 (''Content-Type'', ''application/json'')],
      data = JObj [
        (''messages'', JArr [
           JObj [(''role'', JStr ''system''), (''content'', JStr ''You are a helpful AI assistant.'')],
           JObj [(''role'', JStr ''user''), (''content'', JStr inp)]]),
        (''model'', JStr ''grok-2-latest''),
        (''stream'', JBool False),
        (''temperature'', JFloat temperature)]\<rparr>"

text \<open>
  The body of the \<open>try\<close> in \<open>query_grok\<close>, from the response on. The inner \<open>try\<close> turns
  the JSONDecodeError of \<open>response.json()\<close> into an APIError. \<open>len(response_content)\<close> in
  the last log line raises TypeError on a content without a length.
\<close>

definition query_grok_try :: "http_outcome \<Rightarrow> exn + json" where
  "query_grok_try outcome =
     (case outcome of
        Raised_RequestException \<Rightarrow> Inl RequestException
      | Responded resp \<Rightarrow>
          if status_code resp \<noteq> 200 then
            Inl (APIError (''API request failed with status '' @ str_int (status_code resp))
                   (Some (status_code resp)) (Some (Text (raw_text resp))))
          else
            (case json_body resp of
               None \<Rightarrow>
                 Inl (APIError ''Failed to parse API response as JSON'' None (Some (Text (raw_text resp))))
             | Some result \<Rightarrow>
                 (case validate_api_response result of
                    Inl e \<Rightarrow> Inl e
                  | Inr response_content \<Rightarrow>
                      (case py_len response_content of
                         Inl e \<Rightarrow> Inl e
                       | Inr n \<Rightarrow> Inr response_content))))"

text \<open>The \<open>except\<close> clauses of \<open>query_grok\<close>, in their order: the first that matches.\<close>

fun except_message :: "exn \<Rightarrow> string" where
  "except_message RequestException = ''Failed to connect to Grok API''"
| "except_message JSONDecodeError = ''Failed to parse API response''"
| "except_message (APIError m sc rt) = ''API request failed''"
| "except_message e = ''An unexpected error occurred''"

text \<open>
  \<open>query_grok\<close>: the environment gives the outcome of the one \<open>requests.post\<close> and the
  error id. The result comes with the requests that were posted.
\<close>

record environment =
  API_KEY :: string
  API_URL :: string
  post :: "http_request \<Rightarrow> http_outcome"
  error_id :: string
  now_str :: string
  clock0 :: real
  clock1 :: real
  clock2 :: real

definition query_grok :: "environment \<Rightarrow> string \<Rightarrow> real \<Rightarrow> json \<times> http_request list" where
  "query_grok env inp temperature =
     (let req = build_request (API_KEY env) (API_URL env) inp temperature
      in (case query_grok_try (post env req) of
            Inr response_content \<Rightarrow> (response_content, [req])
          | Inl e \<Rightarrow> (JStr (handle_error e (except_message e) (error_id env)), [req])))"

section \<open>The submit flow of the script\<close>

text \<open>
  What the script does when it runs with the state of the button and the text of the
  input field: the observable actions in their order, and the session afterwards. The
  flow is guarded by \<open>if submit_button and user_input\<close>; an exception inside it is
  caught and shown by \<open>st.error\<close>.
\<close>

datatype action =
    Rate_limiter_consulted
  | Http_post http_request
  | St_error string
  | St_write json

record session =
  limiter :: rate_limiter
  manager :: conversation_manager

definition fresh_session :: session where
  "fresh_session = \<lparr>limiter = fresh_limiter, manager = fresh_manager\<rparr>"

definition submit_flow :: "environment \<Rightarrow> bool \<Rightarrow> string \<Rightarrow> session \<Rightarrow> action list \<times> session" where
  "submit_flow env submit_button inp s =
     (if submit_button \<and> inp \<noteq> [] then
        (case can_make_request (limiter s) (clock0 env) (clock1 env) (clock2 env) of
           (Inl e, rl) \<Rightarrow>
             ([Rate_limiter_consulted,
               St_error (handle_error e ''An error occurred while processing your request''
                           (error_id env))],
              s\<lparr>limiter := rl\<rparr>)
         | (Inr (can_request, limit_message), rl) \<Rightarrow>
             if \<not> can_request then
               ([Rate_limiter_consulted, St_error limit_message], s\<lparr>limiter := rl\<rparr>)
             else
               (let (resp, posted) = query_grok env inp 0.7
                in (Rate_limiter_consulted # map Http_post posted @
                      [St_write (JStr ''**Response:**''), St_write resp],
                    s\<lparr>limiter := rl,
                      manager := add_conversation (manager s) inp resp (now_str env)\<rparr>)))
      else ([], s))"


section \<open>Concrete inputs\<close>

text \<open>
  Call sequences on the limiter of a fresh session: ten bursts of ten requests, 61 seconds
  apart (the bursts at 0, 61, ..., 549), and ten requests at second 100.
\<close>

definition ten_bursts :: "limiter_call list" where
  "ten_bursts =
     concat (map (\<lambda>k. replicate 10 (CanMakeRequest (61 * real k) (61 * real k) (61 * real k)))
                 [0..<10])"

definition ten_at_100 :: "limiter_call list" where
  "ten_at_100 = replicate 10 (CanMakeRequest 100 100 100)"


text \<open>
  Concrete inputs of the application: an input of 4001 characters, an environment whose
  endpoint answers 200 with the reference payload, one whose endpoint answers 200 with a
  body that is not JSON, and 51 calls of \<open>add_conversation\<close>.
\<close>

definition long_input :: string where
  "long_input = replicate 4001 (CHR ''a'')"

definition reference_payload :: json where
  "reference_payload =
     JObj [(''choices'', JArr [JObj [(''message'', JObj [(''content'', JStr ''hi'')])]])]"

definition env_ok :: environment where
  "env_ok =
     \<lparr>API_KEY = ''key'', API_URL = ''https://api.grok.x.ai/v1/chat/completions'',
      post = (\<lambda>req. Responded \<lparr>status_code = 200, raw_text = ''{...}'',
                                 json_body = Some reference_payload\<rparr>),
      error_id = ''20240101_120000'', now_str = ''2024-01-01 12:00:00'',
      clock0 = 1000, clock1 = 1000, clock2 = 1000\<rparr>"

definition env_unparseable :: environment where
  "env_unparseable =
     env_ok\<lparr>post := (\<lambda>req. Responded \<lparr>status_code = 200, raw_text = ''<html>Bad Gateway</html>'',
                                        json_body = None\<rparr>)\<rparr>"

definition fifty_one_calls :: "(string \<times> json \<times> string) list" where
  "fifty_one_calls = map (\<lambda>k. (''query '' @ str_nat k, JStr (''answer '' @ str_nat k), ''t'')) [1..<52]"


section \<open>Properties of the rate limiter\<close>

lemma popleft_while_length: "length (popleft_while xs b) \<le> length xs"
  by (induction xs) auto


lemma deque_append_room:
  "length (items q) < maxlen q \<Longrightarrow> items (deque_append q x) = items q @ [x]"
  by (simp add: deque_append_def Let_def)

lemma deque_append_maxlen: "maxlen (deque_append q x) = maxlen q"
  by (simp add: deque_append_def Let_def)

lemma clean_maxlen: "maxlen (clean_old_requests q w t) = maxlen q"
  by (simp add: clean_old_requests_def)

lemma clean_items: "items (clean_old_requests q w t) = popleft_while (items q) (t - w)"
  by (simp add: clean_old_requests_def)

lemma check_limits_ok:
  assumes "limiter_ok self"
  shows "limiter_ok (snd (check_limits self t0 t1 t2))"
  using assms popleft_while_length [of "items (minute_requests self)" "t1 - 60"]
    popleft_while_length [of "items (hour_requests self)" "t2 - 3600"]
  by (auto simp: limiter_ok_def check_limits_def Let_def queue_head_def clean_items clean_maxlen
      deque_append_room deque_append_maxlen split: list.splits)

lemma get_usage_stats_ok:
  assumes "limiter_ok self"
  shows "limiter_ok (snd (get_usage_stats self t1 t2))"
  using assms popleft_while_length [of "items (minute_requests self)" "t1 - 60"]
    popleft_while_length [of "items (hour_requests self)" "t2 - 3600"]
  by (auto simp: limiter_ok_def get_usage_stats_def Let_def clean_items clean_maxlen)

lemma fresh_limiter_ok: "limiter_ok fresh_limiter"
  by (simp add: limiter_ok_def fresh_limiter_def RateLimiter_init_def deque_new_def
      MAX_REQUESTS_PER_MINUTE_def MAX_REQUESTS_PER_HOUR_def)

lemma limiter_step_ok: "limiter_ok self \<Longrightarrow> limiter_ok (limiter_step self c)"
  by (cases c) (simp_all add: check_limits_ok get_usage_stats_ok)

lemma run_calls_ok: "limiter_ok self \<Longrightarrow> limiter_ok (run_calls self cs)"
  by (induction cs arbitrary: self) (simp_all add: limiter_step_ok)



text \<open>
  C3, as the code has it. The hour deque never holds more than \<open>hour_limit\<close> entries, and
  the check \<open>len(hour_requests) >= hour_limit\<close> does see the full deque: on a limiter
  between calls, \<open>can_make_request\<close> takes the "Hourly limit exceeded" branch exactly when,
  after the purge, the minute queue is below its limit and the hour queue holds
  \<open>hour_limit\<close> entries.
\<close>

theorem hour_rejection_iff:
  assumes "limiter_ok self"
  shows "(\<exists>w. fst (check_limits self t0 t1 t2) = Inr (RejectHour w)) \<longleftrightarrow>
         length (items (clean_old_requests (minute_requests self) 60 t1)) < minute_limit self \<and>
         length (items (clean_old_requests (hour_requests self) 3600 t2)) = hour_limit self"
  using assms popleft_while_length [of "items (hour_requests self)" "t2 - 3600"]
  by (auto simp: check_limits_def Let_def queue_head_def clean_items limiter_ok_def
      split: list.splits if_splits)

theorem hour_rejection_iff_witness:
  "limiter_ok (run_calls fresh_limiter ten_bursts) \<and>
   (\<exists>w. fst (check_limits (run_calls fresh_limiter ten_bursts) 700 700 700) = Inr (RejectHour w))"
proof -
  let ?s = "run_calls fresh_limiter ten_bursts"
  have ok: "limiter_ok ?s"
    by (rule run_calls_ok [OF fresh_limiter_ok])
  have full: "length (items (clean_old_requests (minute_requests ?s) 60 700)) < minute_limit ?s \<and>
      length (items (clean_old_requests (hour_requests ?s) 3600 700)) = hour_limit ?s"
    by code_simp
  from ok full show ?thesis
    using hour_rejection_iff [OF ok, of 700 700 700] by blast
qed

text \<open>
  C3, as the claim states it, fails: after the hundred admitted requests of
  \<open>ten_bursts\<close>, a request at second 610 is rejected by the hour limit, with the message
  of the "Hourly limit exceeded" branch.
\<close>

theorem hourly_limit_reachable:
  "fst (check_limits (run_calls fresh_limiter ten_bursts) 610 610 610) = Inr (RejectHour 2990) \<and>
   fst (can_make_request (run_calls fresh_limiter ten_bursts) 610 610 610) =
     Inr (False, ''Hourly limit exceeded. Please wait 49 minutes.'')"
  by code_simp

text \<open>
  C4: admission is all-or-nothing. On a limiter between calls, \<open>can_make_request\<close> either
  admits and appends \<open>current_time\<close> to both purged queues, or rejects and leaves both
  queues as the purge left them; no timestamp is recorded in one queue only.
\<close>

theorem can_make_request_all_or_nothing:
  assumes "limiter_ok self"
  shows "let mq = clean_old_requests (minute_requests self) 60 t1;
             hq = clean_old_requests (hour_requests self) 3600 t2;
             (r, self') = can_make_request self t0 t1 t2
         in (r = Inr (True, '''') \<and>
             items (minute_requests self') = items mq @ [t0] \<and>
             items (hour_requests self') = items hq @ [t0])
          \<or> ((\<exists>msg. r = Inr (False, msg)) \<and>
             minute_requests self' = mq \<and> hour_requests self' = hq)"
  using assms
  by (auto simp: can_make_request_def check_limits_def Let_def limiter_ok_def queue_head_def
      clean_maxlen deque_append_room split: list.splits)

theorem can_make_request_all_or_nothing_witness:
  "limiter_ok (run_calls fresh_limiter ten_at_100) \<and>
   (let mq = clean_old_requests (minute_requests (run_calls fresh_limiter ten_at_100)) 60 130;
        hq = clean_old_requests (hour_requests (run_calls fresh_limiter ten_at_100)) 3600 130;
        (r, self') = can_make_request (run_calls fresh_limiter ten_at_100) 130 130 130
    in (r = Inr (True, '''') \<and>
        items (minute_requests self') = items mq @ [130] \<and>
        items (hour_requests self') = items hq @ [130])
     \<or> ((\<exists>msg. r = Inr (False, msg)) \<and>
        minute_requests self' = mq \<and> hour_requests self' = hq))"
proof -
  have ok: "limiter_ok (run_calls fresh_limiter ten_at_100)"
    by (rule run_calls_ok [OF fresh_limiter_ok])
  from ok can_make_request_all_or_nothing [OF ok, of 130 130 130]
  show ?thesis by (rule conjI)
qed






section \<open>Properties of the conversation history and of input validation\<close>

lemma strip_all_space:
  assumes "\<forall>c\<in>set s. isspace c"
  shows "strip s = []"
proof -
  have d: "dropWhile isspace s = []"
    using assms by (induction s) simp_all
  show ?thesis unfolding strip_def d by simp
qed

text \<open>
  C10: an input made of whitespace characters only is rejected with "Input cannot be
  empty", whatever its length: emptiness is judged on the stripped string.
\<close>

theorem whitespace_input_rejected:
  assumes "\<forall>c\<in>set inp. isspace c"
  shows "validate_input inp = (False, ''Input cannot be empty'')"
  using assms by (simp add: validate_input_def strip_all_space)

theorem whitespace_input_rejected_witness:
  "1 \<le> length [CHR '' '', CHR 0x09, CHR 0x0A] \<and>
   length [CHR '' '', CHR 0x09, CHR 0x0A] \<le> MAX_INPUT_LENGTH \<and>
   isspace (CHR '' '') \<and> isspace (CHR 0x09) \<and> isspace (CHR 0x0A) \<and>
   validate_input [CHR '' '', CHR 0x09, CHR 0x0A] = (False, ''Input cannot be empty'')"
proof -
  have s: "isspace (CHR '' '')" "isspace (CHR 0x09)" "isspace (CHR 0x0A)"
    by (simp_all add: isspace_def)
  then have h: "\<forall>c\<in>set [CHR '' '', CHR 0x09, CHR 0x0A]. isspace c"
    by simp
  have l: "1 \<le> length [CHR '' '', CHR 0x09, CHR 0x0A] \<and>
      length [CHR '' '', CHR 0x09, CHR 0x0A] \<le> MAX_INPUT_LENGTH"
    by (simp add: MAX_INPUT_LENGTH_def)
  from l s whitespace_input_rejected [OF h] show ?thesis by blast
qed

text \<open>
  C9: reversing what \<open>get_history\<close> returns gives the stored history in insertion order,
  and the call leaves the manager as it was.
\<close>

theorem get_history_roundtrip:
  "rev (fst (get_history self)) = conversation_history self \<and> snd (get_history self) = self"
  by (simp add: get_history_def)

lemma add_conversation_max: "max_history (add_conversation self i r t) = max_history self"
  by (simp add: add_conversation_def Let_def)

lemma add_conversation_history:
  assumes "0 < max_history self"
  shows "conversation_history (add_conversation self i r t) =
     drop (length (conversation_history self @ [entry_of (i, r, t)]) - nat (max_history self))
       (conversation_history self @ [entry_of (i, r, t)])"
proof -
  let ?h = "conversation_history self @ [entry_of (i, r, t)]"
  show ?thesis
  proof (cases "int (length ?h) > max_history self")
    case True
    then have "nat (int (length ?h) + - max_history self) = length ?h - nat (max_history self)"
      using assms by linarith
    with True assms show ?thesis
      by (simp add: add_conversation_def Let_def slice_from_def)
  next
    case False
    then have "length ?h - nat (max_history self) = 0" by linarith
    with False show ?thesis
      by (simp add: add_conversation_def Let_def)
  qed
qed

lemma drop_suffix_step:
  "drop (length (drop (length x - m) x @ r) - m) (drop (length x - m) x @ r)
   = drop (length (x @ r) - m) (x @ r)"
proof (cases "length x \<le> m")
  case True
  then show ?thesis by simp
next
  case False
  then have k: "length x - m \<le> length x" "length (drop (length x - m) x) = m" by simp_all
  have "drop (length x - m) x @ r = drop (length x - m) (x @ r)" by simp
  moreover have "length (drop (length x - m) x @ r) - m = length r" using k by simp
  moreover have "length (x @ r) - m = length r + (length x - m)" using False by simp
  ultimately show ?thesis by (simp only: drop_drop)
qed

lemma add_all_history:
  assumes "0 < max_history self"
  shows "max_history (add_all self cs) = max_history self \<and>
     conversation_history (add_all self cs) =
       (if cs = [] then conversation_history self
        else drop (length (conversation_history self @ map entry_of cs) - nat (max_history self))
          (conversation_history self @ map entry_of cs))"
  using assms
proof (induction cs arbitrary: self)
  case Nil
  then show ?case by simp
next
  case (Cons c cs)
  obtain i r t where c: "c = (i, r, t)" by (cases c) auto
  let ?s = "add_conversation self i r t"
  let ?m = "nat (max_history self)"
  let ?x = "conversation_history self @ [entry_of (i, r, t)]"
  have m: "max_history ?s = max_history self" by (rule add_conversation_max)
  have h: "conversation_history ?s = drop (length ?x - ?m) ?x"
    by (rule add_conversation_history [OF Cons.prems])
  have ih: "max_history (add_all ?s cs) = max_history ?s \<and>
     conversation_history (add_all ?s cs) =
       (if cs = [] then conversation_history ?s
        else drop (length (conversation_history ?s @ map entry_of cs) - nat (max_history ?s))
          (conversation_history ?s @ map entry_of cs))"
    using Cons.IH [of ?s] Cons.prems m by simp
  show ?case
  proof (cases "cs = []")
    case True
    with c h m show ?thesis by simp
  next
    case False
    have "conversation_history (add_all ?s cs) =
        drop (length (drop (length ?x - ?m) ?x @ map entry_of cs) - ?m)
          (drop (length ?x - ?m) ?x @ map entry_of cs)"
      using ih False h m by simp
    also have "\<dots> = drop (length (?x @ map entry_of cs) - ?m) (?x @ map entry_of cs)"
      by (rule drop_suffix_step)
    finally show ?thesis using c ih m by simp
  qed
qed

text \<open>
  C8: with a positive \<open>max_history\<close> (the script uses the default 50), after any sequence
  of \<open>add_conversation\<close> calls the history is never longer than \<open>max_history\<close>; it is
  the sequence of all entries in insertion order without its oldest ones, that is its last
  \<open>max_history\<close> entries, and \<open>get_history\<close> returns them newest first.
\<close>

theorem history_bounded_keeps_newest:
  assumes "0 < max_history self"
    and "int (length (conversation_history self)) \<le> max_history self"
  shows "let everything = conversation_history self @ map entry_of cs;
             kept = conversation_history (add_all self cs)
         in int (length kept) \<le> max_history self \<and>
            kept = drop (length everything - nat (max_history self)) everything \<and>
            fst (get_history (add_all self cs)) = rev kept"
proof (cases "cs = []")
  case True
  with assms show ?thesis by (simp add: get_history_def Let_def)
next
  case False
  with add_all_history [OF assms(1), of cs] assms show ?thesis
    by (auto simp: get_history_def Let_def)
qed

theorem history_bounded_keeps_newest_witness:
  "0 < max_history fresh_manager \<and>
   int (length (conversation_history fresh_manager)) \<le> max_history fresh_manager \<and>
   (let everything = conversation_history fresh_manager @ map entry_of fifty_one_calls;
        kept = conversation_history (add_all fresh_manager fifty_one_calls)
    in int (length kept) \<le> max_history fresh_manager \<and>
       kept = drop (length everything - nat (max_history fresh_manager)) everything \<and>
       fst (get_history (add_all fresh_manager fifty_one_calls)) = rev kept)"
proof -
  have a: "0 < max_history fresh_manager"
    by (simp add: fresh_manager_def ConversationManager_init_def)
  have b: "int (length (conversation_history fresh_manager)) \<le> max_history fresh_manager"
    by (simp add: fresh_manager_def ConversationManager_init_def)
  from a b history_bounded_keeps_newest [OF a b, of fifty_one_calls]
  show ?thesis by blast
qed

text \<open>
  The 51st query of a fresh session: the history stays at 50 entries and the entry of the
  first query is gone.
\<close>

lemma fifty_first_query:
  "length (conversation_history (add_all fresh_manager fifty_one_calls)) = 50 \<and>
   conversation_history (add_all fresh_manager fifty_one_calls) = map entry_of (tl fifty_one_calls) \<and>
   entry_of (hd fifty_one_calls) \<notin> set (conversation_history (add_all fresh_manager fifty_one_calls))"
  by code_simp

section \<open>Properties of the response validator, the API call and the submit flow\<close>

lemma validate_success_shape:
  assumes "validate_api_response p = Inr c"
  shows "\<exists>d fc rest message.
           p = JObj d \<and> map_of d ''choices'' = Some (JArr (JObj fc # rest)) \<and>
           dict_get fc ''message'' (JObj []) = JObj message \<and>
           map_of message ''content'' = Some c \<and> c \<noteq> JNull"
proof -
  from assms obtain d where p: "p = JObj d"
    by (cases p) (simp_all add: validate_api_response_def)
  let ?choices = "dict_get d ''choices'' (JArr [])"
  from assms p have t: "truthy ?choices"
    by (auto simp: validate_api_response_def Let_def split: if_splits)
  from assms p t obtain first_choice where g: "getitem0 ?choices = Inr first_choice"
    by (cases "getitem0 ?choices") (simp_all add: validate_api_response_def Let_def)
  from assms p t g obtain fc where fc: "first_choice = JObj fc"
    by (cases first_choice) (simp_all add: validate_api_response_def Let_def)
  from g fc obtain rest where ch: "?choices = JArr (JObj fc # rest)"
    by (cases ?choices rule: getitem0.cases) auto
  then have m: "map_of d ''choices'' = Some (JArr (JObj fc # rest))"
    by (auto simp: dict_get_def split: option.splits)
  from assms p t g fc obtain message where msg: "dict_get fc ''message'' (JObj []) = JObj message"
    by (cases "dict_get fc ''message'' (JObj [])") (simp_all add: validate_api_response_def Let_def)
  from assms p t g fc msg have "map_of message ''content'' = Some c \<and> c \<noteq> JNull"
    by (auto simp: validate_api_response_def Let_def split: option.splits json.splits)
  with p m msg show ?thesis by blast
qed

text \<open>
  C7: the three reference payloads (the errors carry the messages of the source, "Invalid
  API response: missing or empty 'choices' array" and "Invalid API response: missing
  'content' in message"), and on every success the result is the value stored under
  \<open>content\<close> in the \<open>message\<close> of the first choice, unchanged.
\<close>

theorem validate_api_response_reference_cases:
  "validate_api_response (JObj [(''choices'', JArr [])]) =
     Inl (APIError ''Invalid API response: missing or empty 'choices' array'' None
            (Some (Str_of (JObj [(''choices'', JArr [])])))) \<and>
   validate_api_response
     (JObj [(''choices'', JArr [JObj [(''message'', JObj [(''content'', JStr ''hi'')])]])]) =
     Inr (JStr ''hi'') \<and>
   validate_api_response (JObj [(''choices'', JArr [JObj [(''message'', JObj [])]])]) =
     Inl (APIError ''Invalid API response: missing 'content' in message'' None
            (Some (Str_of (JObj [(''choices'', JArr [JObj [(''message'', JObj [])]])])))) \<and>
   (\<forall>p c. validate_api_response p = Inr c \<longrightarrow>
      (\<exists>d fc rest message.
           p = JObj d \<and> map_of d ''choices'' = Some (JArr (JObj fc # rest)) \<and>
           dict_get fc ''message'' (JObj []) = JObj message \<and>
           map_of message ''content'' = Some c \<and> c \<noteq> JNull))"
proof -
  have 1: "validate_api_response (JObj [(''choices'', JArr [])]) =
     Inl (APIError ''Invalid API response: missing or empty 'choices' array'' None
            (Some (Str_of (JObj [(''choices'', JArr [])]))))"
    by (simp add: validate_api_response_def dict_get_def)
  have 2: "validate_api_response
     (JObj [(''choices'', JArr [JObj [(''message'', JObj [(''content'', JStr ''hi'')])]])]) =
     Inr (JStr ''hi'')"
    by (simp add: validate_api_response_def dict_get_def)
  have 3: "validate_api_response (JObj [(''choices'', JArr [JObj [(''message'', JObj [])]])]) =
     Inl (APIError ''Invalid API response: missing 'content' in message'' None
            (Some (Str_of (JObj [(''choices'', JArr [JObj [(''message'', JObj [])]])]))))"
    by (simp add: validate_api_response_def dict_get_def)
  from 1 2 3 validate_success_shape show ?thesis by blast
qed

theorem validate_api_response_reference_cases_witness:
  "validate_api_response reference_payload = Inr (JStr ''hi'') \<and>
   (\<exists>d fc rest message.
           reference_payload = JObj d \<and> map_of d ''choices'' = Some (JArr (JObj fc # rest)) \<and>
           dict_get fc ''message'' (JObj []) = JObj message \<and>
           map_of message ''content'' = Some (JStr ''hi'') \<and> JStr ''hi'' \<noteq> JNull)"
proof -
  have r: "validate_api_response reference_payload = Inr (JStr ''hi'')"
    by (simp add: reference_payload_def validate_api_response_def dict_get_def)
  from r validate_api_response_reference_cases show ?thesis by blast
qed

lemma unparseable_200_message:
  assumes "post env (build_request (API_KEY env) (API_URL env) inp temperature) = Responded resp"
    and "status_code resp = 200" and "json_body resp = None"
  shows "fst (query_grok env inp temperature) =
           JStr (''API request failed (Error ID: '' @ error_id env @ '')'')"
  using assms by (simp add: query_grok_def query_grok_try_def handle_error_def Let_def)

text \<open>
  C2, at the failing input: a 200 response whose body is not JSON. The inner \<open>try\<close>
  raises an APIError, which the \<open>except APIError\<close> clause turns into "API request
  failed"; the clause with "Failed to parse API response" is never reached.
\<close>

theorem unparseable_body_message:
  "fst (query_grok env_unparseable ''hello'' 0.7) =
     JStr ''API request failed (Error ID: 20240101_120000)'' \<and>
   fst (query_grok env_unparseable ''hello'' 0.7) \<noteq>
     JStr ''Failed to parse API response (Error ID: 20240101_120000)''"
  by (simp add: query_grok_def query_grok_try_def handle_error_def Let_def env_unparseable_def
      env_ok_def)

lemma long_input_not_blank: "strip long_input \<noteq> []"
proof -
  have "\<not> isspace (CHR ''a'')" by (simp add: isspace_def)
  then have "dropWhile isspace long_input = long_input"
    by (simp add: long_input_def dropWhile_eq_self_iff)
  moreover have "rev long_input = long_input" by (simp add: long_input_def)
  ultimately show ?thesis by (simp add: strip_def long_input_def)
qed

lemma str_nat_4000: "str_nat 4000 = ''4000''" by code_simp

text \<open>
  C1, at the failing input: an input of 4001 characters, which \<open>validate_input\<close> would
  reject. The script never calls \<open>validate_input\<close>: the limiter is consulted and the
  request is posted. An empty input is skipped by the guard of the flow, with no message.
\<close>

theorem long_input_reaches_api:
  "length long_input = 4001 \<and>
   validate_input long_input = (False, ''Input exceeds maximum length of 4000 characters'') \<and>
   fst (submit_flow env_ok True long_input fresh_session) =
     [Rate_limiter_consulted,
      Http_post (build_request ''key'' ''https://api.grok.x.ai/v1/chat/completions'' long_input 0.7),
      St_write (JStr ''**Response:**''), St_write (JStr ''hi'')] \<and>
   submit_flow env_ok True [] fresh_session = ([], fresh_session)"
proof -
  have l: "length long_input = 4001" by (simp add: long_input_def)
  have ne: "long_input \<noteq> []" using l by auto
  have v: "validate_input long_input = (False, ''Input exceeds maximum length of 4000 characters'')"
    using l ne long_input_not_blank
    by (simp add: validate_input_def MAX_INPUT_LENGTH_def MIN_INPUT_LENGTH_def str_nat_4000)
  have c: "can_make_request fresh_limiter 1000 1000 1000 =
      (Inr (True, ''''), snd (can_make_request fresh_limiter 1000 1000 1000))"
    by (simp add: can_make_request_def check_limits_def Let_def fresh_limiter_def
        RateLimiter_init_def deque_new_def clean_old_requests_def
        MAX_REQUESTS_PER_MINUTE_def MAX_REQUESTS_PER_HOUR_def)
  have q: "query_grok env_ok long_input 0.7 =
      (JStr ''hi'', [build_request ''key'' ''https://api.grok.x.ai/v1/chat/completions'' long_input 0.7])"
    by (simp add: query_grok_def query_grok_try_def env_ok_def Let_def reference_payload_def
        validate_api_response_def dict_get_def)
  have e: "clock0 env_ok = 1000" "clock1 env_ok = 1000" "clock2 env_ok = 1000"
    by (simp_all add: env_ok_def)
  have f: "fst (submit_flow env_ok True long_input fresh_session) =
     [Rate_limiter_consulted,
      Http_post (build_request ''key'' ''https://api.grok.x.ai/v1/chat/completions'' long_input 0.7),
      St_write (JStr ''**Response:**''), St_write (JStr ''hi'')]"
    unfolding submit_flow_def using ne
    by (simp add: e fresh_session_def q Let_def split: prod.splits sum.splits) (use c in auto)
  have n: "submit_flow env_ok True [] fresh_session = ([], fresh_session)"
    by (simp add: submit_flow_def)
  from l v f n show ?thesis by blast
qed

end
